theory Spec2Isabelle
  imports Complex_Main
begin

section \<open>Car rental: booking lifecycle, availability and overlap-aware pricing\<close>

text \<open>
  A shallow embedding of \<^verbatim>\<open>app.py\<close> and \<^verbatim>\<open>models.py\<close>.

  \<^item> A \<^verbatim>\<open>datetime.date\<close> is its proleptic Gregorian ordinal, an \<open>int\<close>;
    \<^verbatim>\<open>(d2 - d1).days\<close> is the difference of the ordinals and
    \<^verbatim>\<open>d + timedelta(days=1)\<close> is \<open>d + 1\<close>. The upper end of Python's date range
    (9999-12-31) is not part of the model.
  \<^item> A Python \<^verbatim>\<open>float\<close> is idealised as the exact rational it denotes: the binary64
    rounding done by \<^verbatim>\<open>float()\<close>, \<^verbatim>\<open>*\<close> and \<^verbatim>\<open>round()\<close> is not modelled.
  \<^item> A Python \<^verbatim>\<open>str\<close> is a \<open>string\<close>; a code point outside ASCII is written as its
    UTF-8 bytes, none of which is an ASCII digit or a full stop.
  \<^item> The tables are lists of rows in insertion order; a request handler is a function
    from the database (and the request) to the new database and an outcome.
\<close>

subsection \<open>Price strings\<close>

type_synonym date = int

definition is_digit :: "char \<Rightarrow> bool" where
  "is_digit c = (c \<in> set ''0123456789'')"

text \<open>The character class \<^verbatim>\<open>[0-9.]\<close>; \<^verbatim>\<open>re.sub(r"[^0-9.]", "", s)\<close> keeps exactly these.\<close>

definition price_char :: "char \<Rightarrow> bool" where
  "price_char c = (is_digit c \<or> c = CHR ''.'')"

definition strip_non_price :: "string \<Rightarrow> string" where
  "strip_non_price price_str = filter price_char price_str"

definition digit_value :: "char \<Rightarrow> nat" where
  "digit_value c = of_char c - 48"

definition decimal_value :: "string \<Rightarrow> nat" where
  "decimal_value ds = foldl (\<lambda>n c. 10 * n + digit_value c) 0 ds"

text \<open>
  Python's \<^verbatim>\<open>float(s)\<close> on a string of digits and full stops: \<^verbatim>\<open>"12"\<close>, \<^verbatim>\<open>"12."\<close>,
  \<^verbatim>\<open>".5"\<close> and \<^verbatim>\<open>"12.5"\<close> are literals; the empty string, a lone full stop and a
  string with two full stops raise \<^verbatim>\<open>ValueError\<close> (\<open>None\<close>). Strings with other
  characters never reach it from \<open>parse_price\<close>; the model answers \<open>None\<close> for them.
\<close>

definition py_float :: "string \<Rightarrow> rat option" where
  "py_float s =
     (let int_part = takeWhile is_digit s; rest = dropWhile is_digit s in
      case rest of
        [] \<Rightarrow> if int_part = [] then None else Some (of_nat (decimal_value int_part))
      | c # frac_part \<Rightarrow>
          if c = CHR ''.'' \<and> list_all is_digit frac_part \<and> int_part @ frac_part \<noteq> []
          then Some (of_nat (decimal_value int_part)
                     + of_nat (decimal_value frac_part) / 10 ^ length frac_part)
          else None)"

definition parse_price :: "string \<Rightarrow> rat" where
  "parse_price price_str =
     (if price_str = [] then 0
      else case py_float (strip_non_price price_str) of
             Some v \<Rightarrow> v
           | None \<Rightarrow> 0)"

text \<open>\<^verbatim>\<open>round(x, 2)\<close>: to the nearest hundredth, a tie going to the even neighbour.\<close>

definition round_half_even :: "rat \<Rightarrow> int" where
  "round_half_even x =
     (let f = \<lfloor>x\<rfloor>; d = x - of_int f in
      if d < 1 / 2 then f
      else if 1 / 2 < d then f + 1
      else if even f then f else f + 1)"

definition py_round2 :: "rat \<Rightarrow> rat" where
  "py_round2 x = of_int (round_half_even (x * 100)) / 100"

subsection \<open>Date ranges\<close>

text \<open>The day count of \<^verbatim>\<open>confirmation\<close> (lines 341 to 347).\<close>

definition inclusiveDays :: "date \<Rightarrow> date \<Rightarrow> int" where
  "inclusiveDays pickup_date return_date =
     (let total_days = (return_date - pickup_date) + 1 in
      if total_days < 1 then 1 else total_days)"

subsection \<open>Tables\<close>

text \<open>
  The columns of \<^verbatim>\<open>models.py\<close> that the handlers below read or write. A nullable
  column is an \<open>option\<close>. \<open>b_status\<close>, \<open>b_payment_method\<close> and \<open>b_payment_status\<close>
  are strings, as in the source; a new booking gets the column defaults
  \<^verbatim>\<open>'Pending'\<close>, \<^verbatim>\<open>NULL\<close> and \<^verbatim>\<open>'Unpaid'\<close>.
\<close>

record car =
  c_id :: nat
  c_name :: string
  c_price :: string

record booking =
  b_id :: nat
  b_user_id :: nat
  b_car_id :: nat
  b_pickup_date :: date
  b_return_date :: date
  b_notes :: "string option"
  b_status :: string
  b_payment_method :: "string option"
  b_payment_status :: string

record review =
  r_id :: nat
  r_user_id :: nat
  r_car_id :: nat
  r_booking_id :: nat
  r_rating :: nat
  r_comment :: "string option"

record database =
  cars :: "car list"
  bookings :: "booking list"
  reviews :: "review list"

text \<open>\<^verbatim>\<open>current_user\<close>: the logged-in actor of a request.\<close>

record user =
  u_id :: nat
  u_is_admin :: bool

text \<open>
  What a handler answers: the flash message, redirect or status code of each branch.
  \<open>DateOverlap\<close> carries, for every conflicting booking, its id and its two dates (the
  source formats them into the flash message).
\<close>

datatype transition_error =
  FromPending | FromApproved | FromRejected | FromReturned | FromCompleted

datatype outcome =
  FormRendered
  | NotFound
  | AccessDenied
  | ServerError
  | OperationFailed
  | DatesConflict
  | BookingSubmitted
  | Confirmation rat
  | PaymentNotApproved
  | PaymentMethodSelected
  | NoPaymentMethod
  | PaymentProcessed
  | NotEditable
  | DatesRequired
  | BookingUpdated
  | NotDeletable
  | BookingDeleted
  | NotReturned
  | AlreadyReviewed
  | ReviewSaved
  | DateOverlap "(nat \<times> date \<times> date) list"
  | PendingWithPayment
  | IllegalTransition transition_error
  | InvalidStatus
  | StatusUpdated
  | CarSaved
  | CarDeleted

subsection \<open>Queries\<close>

definition get_booking :: "database \<Rightarrow> nat \<Rightarrow> booking option" where
  "get_booking db booking_id = find (\<lambda>b. b_id b = booking_id) (bookings db)"

definition get_car :: "database \<Rightarrow> nat \<Rightarrow> car option" where
  "get_car db car_id = find (\<lambda>c. c_id c = car_id) (cars db)"

text \<open>\<^verbatim>\<open>UPDATE booking SET ... WHERE id = booking_id\<close>, as the commit writes a changed row.\<close>

definition update_booking :: "nat \<Rightarrow> (booking \<Rightarrow> booking) \<Rightarrow> database \<Rightarrow> database" where
  "update_booking booking_id f db =
     db\<lparr>bookings := map (\<lambda>b. if b_id b = booking_id then f b else b) (bookings db)\<rparr>"

text \<open>
  The primary key of a new row. SQLite gives an \<^verbatim>\<open>INTEGER PRIMARY KEY\<close> column one
  more than the largest key in the table, and 1 in an empty table.
\<close>

definition fresh_id :: "nat list \<Rightarrow> nat" where
  "fresh_id ids = Suc (fold max ids 0)"

definition blocking_statuses :: "string list" where
  "blocking_statuses = [''Approved'', ''Returned'', ''Completed'']"

text \<open>
  The conflict query. It is written out three times in the source: in \<^verbatim>\<open>book\<close>
  (for the submitted car and dates, excluding nothing), and in
  \<^verbatim>\<open>admin_update_booking_status\<close> and \<^verbatim>\<open>confirmation\<close> (for the booking's own car
  and dates, excluding the booking itself: \<^verbatim>\<open>Booking.id != booking.id\<close>).
\<close>

definition conflicting_bookings ::
  "booking list \<Rightarrow> nat \<Rightarrow> date \<Rightarrow> date \<Rightarrow> nat option \<Rightarrow> booking list" where
  "conflicting_bookings bs car_id pickup_date return_date exclude =
     filter (\<lambda>b. b_car_id b = car_id
                \<and> Some (b_id b) \<noteq> exclude
                \<and> b_status b \<in> set blocking_statuses
                \<and> pickup_date \<le> b_return_date b
                \<and> b_pickup_date b \<le> return_date) bs"

text \<open>\<^verbatim>\<open>if conflicting_bookings:\<close> a non-empty result is a conflict.\<close>

definition hasConflict :: "booking list \<Rightarrow> nat \<Rightarrow> date \<Rightarrow> date \<Rightarrow> nat option \<Rightarrow> bool" where
  "hasConflict bs car_id pickup_date return_date exclude =
     (conflicting_bookings bs car_id pickup_date return_date exclude \<noteq> [])"

subsection \<open>Booking submission\<close>

text \<open>
  \<open>bf_valid\<close> is the answer of \<^verbatim>\<open>form.validate_on_submit()\<close>: a POST whose fields pass
  the validators of \<^verbatim>\<open>BookingForm\<close>. The car is not checked against the car table
  (\<^verbatim>\<open>validate_choice=False\<close>), and the two dates are not compared.
\<close>

record booking_form =
  bf_valid :: bool
  bf_car :: nat
  bf_pickup :: date
  bf_return_date :: date
  bf_notes :: "string option"

definition book :: "database \<Rightarrow> user \<Rightarrow> booking_form \<Rightarrow> database \<times> outcome" where
  "book db current_user form =
     (if bf_valid form then
        (if hasConflict (bookings db) (bf_car form) (bf_pickup form) (bf_return_date form) None
         then (db, DatesConflict)
         else
           (db\<lparr>bookings := bookings db @
                [\<lparr>b_id = fresh_id (map b_id (bookings db)),
                  b_user_id = u_id current_user,
                  b_car_id = bf_car form,
                  b_pickup_date = bf_pickup form,
                  b_return_date = bf_return_date form,
                  b_notes = bf_notes form,
                  b_status = ''Pending'',
                  b_payment_method = None,
                  b_payment_status = ''Unpaid''\<rparr>]\<rparr>,
            BookingSubmitted))
      else (db, FormRendered))"

subsection \<open>Confirmation: overlap-adjusted pricing\<close>

text \<open>The inner \<^verbatim>\<open>while current_date <= end_date\<close> loop.\<close>

function add_days :: "date \<Rightarrow> date \<Rightarrow> date set \<Rightarrow> date set" where
  "add_days current_date end_date overlapping_days =
     (if current_date \<le> end_date
      then add_days (current_date + 1) end_date (insert current_date overlapping_days)
      else overlapping_days)"
  by pat_completeness auto
termination
  by (relation "measure (\<lambda>(c, e, _). nat (e + 1 - c))") auto

declare add_days.simps [simp del]

text \<open>The outer \<^verbatim>\<open>for other_booking in overlapping_bookings\<close> loop.\<close>

fun collect_overlapping_days :: "booking \<Rightarrow> booking list \<Rightarrow> date set \<Rightarrow> date set" where
  "collect_overlapping_days booking [] overlapping_days = overlapping_days"
| "collect_overlapping_days booking (other_booking # rest) overlapping_days =
     collect_overlapping_days booking rest
       (add_days (max (b_pickup_date booking) (b_pickup_date other_booking))
                 (min (b_return_date booking) (b_return_date other_booking))
                 overlapping_days)"

definition billable_days :: "booking list \<Rightarrow> booking \<Rightarrow> int" where
  "billable_days bs booking =
     (let total_days = inclusiveDays (b_pickup_date booking) (b_return_date booking);
          overlapping_bookings =
            conflicting_bookings bs (b_car_id booking) (b_pickup_date booking)
              (b_return_date booking) (Some (b_id booking));
          overlapping_days = collect_overlapping_days booking overlapping_bookings {};
          days = total_days - int (card overlapping_days)
      in if days < 1 then 1 else days)"

definition total_price :: "database \<Rightarrow> booking \<Rightarrow> rat" where
  "total_price db booking =
     (let price_per_day =
            parse_price (case get_car db (b_car_id booking) of
                           Some car \<Rightarrow> c_price car
                         | None \<Rightarrow> [])
      in py_round2 (price_per_day * of_int (billable_days (bookings db) booking)))"

definition confirmation :: "database \<Rightarrow> user \<Rightarrow> nat \<Rightarrow> database \<times> outcome" where
  "confirmation db current_user booking_id =
     (case get_booking db booking_id of
        None \<Rightarrow> (db, NotFound)
      | Some booking \<Rightarrow>
          if b_user_id booking \<noteq> u_id current_user \<and> \<not> u_is_admin current_user
          then (db, AccessDenied)
          else (db, Confirmation (total_price db booking)))"

subsection \<open>Payment\<close>

text \<open>
  \<^verbatim>\<open>request.form.get('payment_method')\<close> is \<open>None\<close> when the field is absent;
  \<^verbatim>\<open>if payment_method:\<close> holds for a non-empty string. The submitted string is stored
  as it is.
\<close>

definition confirmation_payment ::
  "database \<Rightarrow> user \<Rightarrow> nat \<Rightarrow> string option \<Rightarrow> database \<times> outcome" where
  "confirmation_payment db current_user booking_id payment_method =
     (case get_booking db booking_id of
        None \<Rightarrow> (db, NotFound)
      | Some booking \<Rightarrow>
          if b_user_id booking \<noteq> u_id current_user then (db, AccessDenied)
          else if b_status booking \<noteq> ''Approved'' then (db, PaymentNotApproved)
          else (case payment_method of
                  None \<Rightarrow> (db, NoPaymentMethod)
                | Some pm \<Rightarrow>
                    if pm = [] then (db, NoPaymentMethod)
                    else (update_booking booking_id
                            (\<lambda>b. if pm = ''Cash''
                                 then b\<lparr>b_payment_method := Some pm, b_payment_status := ''Unpaid''\<rparr>
                                 else b\<lparr>b_payment_method := Some pm\<rparr>) db,
                          PaymentMethodSelected)))"

text \<open>
  \<open>data\<close> is the JSON body: \<open>None\<close> when \<^verbatim>\<open>request.get_json()\<close> gives no object (the
  handler's \<^verbatim>\<open>except\<close> rolls back and answers 500), else the value under
  \<^verbatim>\<open>'payment_method'\<close>, \<open>None\<close> when the key is absent.
\<close>

definition process_payment ::
  "database \<Rightarrow> user \<Rightarrow> nat \<Rightarrow> string option option \<Rightarrow> database \<times> outcome" where
  "process_payment db current_user booking_id data =
     (case get_booking db booking_id of
        None \<Rightarrow> (db, NotFound)
      | Some booking \<Rightarrow>
          if b_user_id booking \<noteq> u_id current_user then (db, AccessDenied)
          else if b_status booking \<noteq> ''Approved'' then (db, PaymentNotApproved)
          else (case data of
                  None \<Rightarrow> (db, ServerError)
                | Some payment_method \<Rightarrow>
                    (update_booking booking_id
                       (\<lambda>b. b\<lparr>b_payment_method := payment_method, b_payment_status := ''Paid''\<rparr>) db,
                     PaymentProcessed)))"

subsection \<open>Owner edit and delete\<close>

text \<open>
  A date field of the edit form: absent or empty (\<open>Missing\<close>), a string that
  \<^verbatim>\<open>strptime\<close> rejects with \<^verbatim>\<open>ValueError\<close> (\<open>Malformed\<close>), or a date.
\<close>

datatype form_date = Missing | Malformed | Date date

record edit_form =
  ef_post :: bool
  ef_pickup_date :: form_date
  ef_return_date :: form_date
  ef_notes :: "string option"

definition edit_booking :: "database \<Rightarrow> user \<Rightarrow> nat \<Rightarrow> edit_form \<Rightarrow> database \<times> outcome" where
  "edit_booking db current_user booking_id form =
     (case get_booking db booking_id of
        None \<Rightarrow> (db, NotFound)
      | Some booking \<Rightarrow>
          if b_user_id booking \<noteq> u_id current_user then (db, AccessDenied)
          else if b_status booking \<notin> set [''Pending'', ''Approved''] then (db, NotEditable)
          else if ef_post form then
            (case (ef_pickup_date form, ef_return_date form) of
               (Missing, _) \<Rightarrow> (db, DatesRequired)
             | (_, Missing) \<Rightarrow> (db, DatesRequired)
             | (Date pickup_date, Date return_date) \<Rightarrow>
                 (update_booking booking_id
                    (\<lambda>b. b\<lparr>b_pickup_date := pickup_date, b_return_date := return_date,
                            b_notes := ef_notes form\<rparr>) db,
                  BookingUpdated)
             | _ \<Rightarrow> (db, ServerError))
          else (db, FormRendered))"

text \<open>
  \<^verbatim>\<open>get_or_404\<close> is inside the \<^verbatim>\<open>try\<close> here: a missing booking ends in the
  \<^verbatim>\<open>except\<close> branch (rollback and an error message).
\<close>

definition delete_booking :: "database \<Rightarrow> user \<Rightarrow> nat \<Rightarrow> database \<times> outcome" where
  "delete_booking db current_user booking_id =
     (case get_booking db booking_id of
        None \<Rightarrow> (db, OperationFailed)
      | Some booking \<Rightarrow>
          if b_user_id booking \<noteq> u_id current_user then (db, AccessDenied)
          else if b_status booking \<notin> set [''Pending'', ''Approved''] then (db, NotDeletable)
          else (db\<lparr>bookings := filter (\<lambda>b. b_id b \<noteq> booking_id) (bookings db)\<rparr>,
                BookingDeleted))"

subsection \<open>Review submission\<close>

text \<open>
  \<open>rf_valid\<close> is the answer of \<^verbatim>\<open>form.validate_on_submit()\<close>. The review row and the
  new status are written by one \<^verbatim>\<open>db.session.commit()\<close>; \<open>commit_ok\<close> says whether
  that commit goes through. A failed commit raises, nothing is written, and the request
  ends in a server error.
\<close>

record review_form =
  rf_valid :: bool
  rf_rating :: nat
  rf_comment :: string

definition review ::
  "database \<Rightarrow> user \<Rightarrow> nat \<Rightarrow> review_form \<Rightarrow> bool \<Rightarrow> database \<times> outcome" where
  "review db current_user booking_id form commit_ok =
     (case get_booking db booking_id of
        None \<Rightarrow> (db, NotFound)
      | Some booking \<Rightarrow>
          if b_user_id booking \<noteq> u_id current_user then (db, AccessDenied)
          else if b_status booking \<noteq> ''Returned'' then (db, NotReturned)
          else if find (\<lambda>r. r_booking_id r = booking_id) (reviews db) \<noteq> None
          then (db, AlreadyReviewed)
          else if rf_valid form then
            (let review_obj =
                   \<lparr>r_id = fresh_id (map r_id (reviews db)),
                    r_user_id = u_id current_user,
                    r_car_id = b_car_id booking,
                    r_booking_id = booking_id,
                    r_rating = rf_rating form,
                    r_comment = (if rf_comment form = [] then None else Some (rf_comment form))\<rparr>;
                 db' = update_booking booking_id (\<lambda>b. b\<lparr>b_status := ''Completed''\<rparr>)
                         (db\<lparr>reviews := reviews db @ [review_obj]\<rparr>)
             in if commit_ok then (db', ReviewSaved) else (db, ServerError))
          else (db, FormRendered))"

subsection \<open>Admin: status update and deletions\<close>

definition is_valid_status :: "string \<Rightarrow> bool" where
  "is_valid_status status =
     (status \<in> set [''Pending'', ''Approved'', ''Rejected'', ''Completed'', ''Returned''])"

text \<open>``Validation 2'': the \<^verbatim>\<open>if\<close>/\<^verbatim>\<open>elif\<close> chain over the current status.\<close>

definition status_transition_error :: "string \<Rightarrow> string option \<Rightarrow> transition_error option" where
  "status_transition_error current_status new_status =
     (if current_status = ''Pending'' then
        (if new_status \<notin> set (map Some [''Pending'', ''Approved'', ''Rejected''])
         then Some FromPending else None)
      else if current_status = ''Approved'' then
        (if new_status \<notin> set (map Some [''Approved'', ''Returned''])
         then Some FromApproved else None)
      else if current_status = ''Rejected'' then Some FromRejected
      else if current_status = ''Returned'' then
        (if new_status \<in> set (map Some [''Pending'', ''Approved'', ''Rejected''])
         then Some FromReturned else None)
      else if current_status = ''Completed'' then Some FromCompleted
      else None)"

text \<open>\<open>new_status\<close> is \<^verbatim>\<open>request.form.get('status')\<close>: any string, or \<open>None\<close>.\<close>

definition admin_update_booking_status ::
  "database \<Rightarrow> user \<Rightarrow> nat \<Rightarrow> string option \<Rightarrow> database \<times> outcome" where
  "admin_update_booking_status db current_user booking_id new_status =
     (if \<not> u_is_admin current_user then (db, AccessDenied)
      else case get_booking db booking_id of
        None \<Rightarrow> (db, NotFound)
      | Some booking \<Rightarrow>
          (let current_status = b_status booking;
               has_payment = (b_payment_method booking \<noteq> None
                              \<and> b_payment_method booking \<noteq> Some []);
               conflicting =
                 conflicting_bookings (bookings db) (b_car_id booking)
                   (b_pickup_date booking) (b_return_date booking) (Some (b_id booking))
           in
             if new_status = Some ''Approved'' \<and> current_status = ''Pending''
                \<and> conflicting \<noteq> []
             then (db, DateOverlap
                         (map (\<lambda>cb. (b_id cb, b_pickup_date cb, b_return_date cb)) conflicting))
             else if new_status = Some ''Pending'' \<and> has_payment then (db, PendingWithPayment)
             else (case status_transition_error current_status new_status of
                     Some e \<Rightarrow> (db, IllegalTransition e)
                   | None \<Rightarrow>
                       (case new_status of
                          None \<Rightarrow> (db, InvalidStatus)
                        | Some s \<Rightarrow>
                            if is_valid_status s
                            then (update_booking booking_id (\<lambda>b. b\<lparr>b_status := s\<rparr>) db,
                                  StatusUpdated)
                            else (db, InvalidStatus)))))"

definition admin_delete_booking :: "database \<Rightarrow> user \<Rightarrow> nat \<Rightarrow> database \<times> outcome" where
  "admin_delete_booking db current_user booking_id =
     (if \<not> u_is_admin current_user then (db, AccessDenied)
      else case get_booking db booking_id of
        None \<Rightarrow> (db, OperationFailed)
      | Some booking \<Rightarrow>
          (db\<lparr>bookings := filter (\<lambda>b. b_id b \<noteq> booking_id) (bookings db),
              reviews := filter (\<lambda>r. r_booking_id r \<noteq> booking_id) (reviews db)\<rparr>,
           BookingDeleted))"

subsection \<open>Admin: cars\<close>

record car_form =
  cf_valid :: bool
  cf_name :: string
  cf_price :: string

definition admin_add_car :: "database \<Rightarrow> user \<Rightarrow> car_form \<Rightarrow> database \<times> outcome" where
  "admin_add_car db current_user form =
     (if \<not> u_is_admin current_user then (db, AccessDenied)
      else if cf_valid form then
        (db\<lparr>cars := cars db @
             [\<lparr>c_id = fresh_id (map c_id (cars db)), c_name = cf_name form,
               c_price = cf_price form\<rparr>]\<rparr>,
         CarSaved)
      else (db, FormRendered))"

definition admin_edit_car :: "database \<Rightarrow> user \<Rightarrow> nat \<Rightarrow> car_form \<Rightarrow> database \<times> outcome" where
  "admin_edit_car db current_user car_id form =
     (if \<not> u_is_admin current_user then (db, AccessDenied)
      else case get_car db car_id of
        None \<Rightarrow> (db, NotFound)
      | Some car \<Rightarrow>
          if cf_valid form then
            (db\<lparr>cars := map (\<lambda>c. if c_id c = car_id
                                 then c\<lparr>c_name := cf_name form, c_price := cf_price form\<rparr>
                                 else c) (cars db)\<rparr>,
             CarSaved)
          else (db, FormRendered))"

text \<open>The cascade: the car's reviews and bookings go with it.\<close>

definition admin_delete_car :: "database \<Rightarrow> user \<Rightarrow> nat \<Rightarrow> database \<times> outcome" where
  "admin_delete_car db current_user car_id =
     (if \<not> u_is_admin current_user then (db, AccessDenied)
      else case get_car db car_id of
        None \<Rightarrow> (db, NotFound)
      | Some car \<Rightarrow>
          (db\<lparr>cars := filter (\<lambda>c. c_id c \<noteq> car_id) (cars db),
              bookings := filter (\<lambda>b. b_car_id b \<noteq> car_id) (bookings db),
              reviews := filter (\<lambda>r. r_car_id r \<noteq> car_id) (reviews db)\<rparr>,
           CarDeleted))"

subsection \<open>The system: requests and reachable states\<close>

text \<open>
  The requests of the model are the handlers that write the car, booking or review table,
  and the confirmation page. Every request carries its logged-in user (the handlers are
  behind \<^verbatim>\<open>login_required\<close> or \<^verbatim>\<open>admin_required\<close>). Log-in, registration, the
  user administration and the read-only pages are left out.
\<close>

datatype request =
  Book user booking_form
  | ViewConfirmation user nat
  | ConfirmationPayment user nat "string option"
  | ProcessPayment user nat "string option option"
  | EditBooking user nat edit_form
  | DeleteBooking user nat
  | SubmitReview user nat review_form bool
  | AdminUpdateBookingStatus user nat "string option"
  | AdminDeleteBooking user nat
  | AdminAddCar user car_form
  | AdminEditCar user nat car_form
  | AdminDeleteCar user nat

fun handle :: "database \<Rightarrow> request \<Rightarrow> database \<times> outcome" where
  "handle db (Book u f) = book db u f"
| "handle db (ViewConfirmation u i) = confirmation db u i"
| "handle db (ConfirmationPayment u i pm) = confirmation_payment db u i pm"
| "handle db (ProcessPayment u i d) = process_payment db u i d"
| "handle db (EditBooking u i f) = edit_booking db u i f"
| "handle db (DeleteBooking u i) = delete_booking db u i"
| "handle db (SubmitReview u i f ok) = review db u i f ok"
| "handle db (AdminUpdateBookingStatus u i s) = admin_update_booking_status db u i s"
| "handle db (AdminDeleteBooking u i) = admin_delete_booking db u i"
| "handle db (AdminAddCar u f) = admin_add_car db u f"
| "handle db (AdminEditCar u i f) = admin_edit_car db u i f"
| "handle db (AdminDeleteCar u i) = admin_delete_car db u i"

definition step :: "database \<Rightarrow> request \<Rightarrow> database" where
  "step db req = fst (handle db req)"

text \<open>
  The states the system can be in: it starts with no booking and no review (and any
  cars), and every request takes it to the next state.
\<close>

inductive reachable :: "database \<Rightarrow> bool" where
  initial: "bookings db = [] \<Longrightarrow> reviews db = [] \<Longrightarrow> reachable db"
| request: "reachable db \<Longrightarrow> reachable (step db req)"

text \<open>Running a list of requests from a state.\<close>

definition run :: "database \<Rightarrow> request list \<Rightarrow> database" where
  "run db reqs = foldl step db reqs"

subsection \<open>Invariants of the tables\<close>

text \<open>The booking ids are distinct (the primary key).\<close>

definition ids_distinct :: "database \<Rightarrow> bool" where
  "ids_distinct db = distinct (map b_id (bookings db))"

text \<open>No two review rows name the same booking.\<close>

definition one_review :: "database \<Rightarrow> bool" where
  "one_review db = distinct (map r_booking_id (reviews db))"

definition pay_status_ok :: "database \<Rightarrow> bool" where
  "pay_status_ok db = (\<forall>b \<in> set (bookings db). b_payment_status b \<in> {''Unpaid'', ''Paid''})"

definition statuses_valid :: "database \<Rightarrow> bool" where
  "statuses_valid db = (\<forall>b \<in> set (bookings db). is_valid_status (b_status b))"

subsection \<open>Example data\<close>

text \<open>
  Three actors, the first sample car of the source, and the states of a few short
  sessions. \<open>feb d\<close> is the ordinal of day \<open>d\<close> of February 2024.
\<close>

definition alice :: user where "alice = \<lparr>u_id = 1, u_is_admin = False\<rparr>"

definition bob :: user where "bob = \<lparr>u_id = 2, u_is_admin = False\<rparr>"

definition admin :: user where "admin = \<lparr>u_id = 3, u_is_admin = True\<rparr>"

definition feb :: "int \<Rightarrow> date" where "feb d = 738916 + d"

definition vios :: car where
  "vios = \<lparr>c_id = 1, c_name = ''Toyota Vios 2020'', c_price = ''2,000''\<rparr>"

definition initial_db :: database where
  "initial_db = \<lparr>cars = [vios], bookings = [], reviews = []\<rparr>"

definition booking_request :: "date \<Rightarrow> date \<Rightarrow> booking_form" where
  "booking_request pickup_date return_date =
     \<lparr>bf_valid = True, bf_car = 1, bf_pickup = pickup_date, bf_return_date = return_date,
      bf_notes = None\<rparr>"

text \<open>Alice's booking of 1 to 10 February, approved.\<close>

definition approved_db :: database where
  "approved_db =
     run initial_db
       [Book alice (booking_request (feb 1) (feb 10)),
        AdminUpdateBookingStatus admin 1 (Some ''Approved'')]"

text \<open>The same booking after the car came back.\<close>

definition returned_db :: database where
  "returned_db = run approved_db [AdminUpdateBookingStatus admin 1 (Some ''Returned'')]"

text \<open>
  Alice's booking (1 to 10 February) approved while Bob's request for the same car
  (5 to 15 February) is pending.
\<close>

definition scenario_db :: database where
  "scenario_db =
     run initial_db
       [Book alice (booking_request (feb 1) (feb 10)),
        Book bob (booking_request (feb 5) (feb 15)),
        AdminUpdateBookingStatus admin 1 (Some ''Approved'')]"

text \<open>
  Two bookings of one car on disjoint dates, both approved; then Bob moves his dates
  onto Alice's.
\<close>

definition overlap_trace :: "request list" where
  "overlap_trace =
     [Book alice (booking_request (feb 1) (feb 10)),
      Book bob (booking_request (feb 11) (feb 15)),
      AdminUpdateBookingStatus admin 1 (Some ''Approved''),
      AdminUpdateBookingStatus admin 2 (Some ''Approved''),
      EditBooking bob 2 \<lparr>ef_post = True, ef_pickup_date = Date (feb 5),
                          ef_return_date = Date (feb 15), ef_notes = None\<rparr>]"

text \<open>Alice's approved booking with cash chosen as the payment method.\<close>

definition cash_db :: database where
  "cash_db = run approved_db [ConfirmationPayment alice 1 (Some ''Cash'')]"

text \<open>The scenario after Bob's request was rejected.\<close>

definition rejected_db :: database where
  "rejected_db = run scenario_db [AdminUpdateBookingStatus admin 2 (Some ''Rejected'')]"

definition review_request :: review_form where
  "review_request = \<lparr>rf_valid = True, rf_rating = 5, rf_comment = ''Smooth ride''\<rparr>"

subsection \<open>Unfolding the handlers\<close>

lemmas handler_defs = book_def confirmation_def confirmation_payment_def process_payment_def
  edit_booking_def delete_booking_def review_def admin_update_booking_status_def
  admin_delete_booking_def admin_add_car_def admin_edit_car_def admin_delete_car_def

lemmas example_defs = alice_def bob_def admin_def feb_def vios_def initial_db_def
  booking_request_def approved_db_def returned_db_def scenario_db_def overlap_trace_def
  cash_db_def rejected_db_def review_request_def

lemmas eval_defs = run_def step_def handler_defs get_booking_def get_car_def update_booking_def
  fresh_id_def hasConflict_def conflicting_bookings_def blocking_statuses_def is_valid_status_def
  status_transition_error_def Let_def

subsection \<open>Facts about price strings and day counts\<close>

lemma py_float_nonneg: "py_float s = Some v \<Longrightarrow> 0 \<le> v"
  by (auto simp: py_float_def Let_def split: list.splits if_splits)

lemma parse_price_nonneg: "0 \<le> parse_price s"
  by (auto simp: parse_price_def py_float_nonneg split: option.splits)

lemma round_half_even_nonneg: "0 \<le> x \<Longrightarrow> 0 \<le> round_half_even x"
  by (auto simp: round_half_even_def Let_def)

lemma py_round2_nonneg: "0 \<le> x \<Longrightarrow> 0 \<le> py_round2 x"
  by (simp add: py_round2_def round_half_even_nonneg)

lemma strip_non_price_chars: "set (strip_non_price s) = {c \<in> set s. price_char c}"
  by (auto simp: strip_non_price_def)

subsection \<open>Facts about the pricing loops and the conflict query\<close>





lemma hasConflict_iff:
  "hasConflict bs car_id start end excl \<longleftrightarrow>
     (\<exists>b \<in> set bs. b_car_id b = car_id \<and> Some (b_id b) \<noteq> excl
        \<and> b_status b \<in> {''Approved'', ''Returned'', ''Completed''}
        \<and> start \<le> b_return_date b \<and> b_pickup_date b \<le> end)"
  by (auto simp: hasConflict_def conflicting_bookings_def blocking_statuses_def filter_empty_conv)

subsection \<open>Facts about the tables\<close>

lemma fold_max_ge: "(a::nat) \<le> fold max ids a"
  by (induction ids arbitrary: a) (auto intro: order_trans[OF max.cobounded2])

lemma fold_max_mem: "(x::nat) \<in> set ids \<Longrightarrow> x \<le> fold max ids a"
proof (induction ids arbitrary: a)
  case Nil
  then show ?case by simp
next
  case (Cons y ys)
  then show ?case
    using fold_max_ge[of "max y a" ys] by auto
qed

lemma fresh_id_fresh: "fresh_id ids \<notin> set ids"
  using fold_max_mem[of "fresh_id ids" ids 0] by (auto simp: fresh_id_def)

lemma fresh_id_booking: "x \<in> set bs \<Longrightarrow> fresh_id (map b_id bs) \<noteq> b_id x"
  using fresh_id_fresh[of "map b_id bs"] by auto

lemma ids_update_booking:
  assumes "\<And>b. b_id (f b) = b_id b"
  shows "map b_id (bookings (update_booking i f db)) = map b_id (bookings db)"
  using assms by (simp add: update_booking_def comp_def if_distrib[of b_id] cong: if_cong)

lemma step_pay_status_ok: "pay_status_ok db \<Longrightarrow> pay_status_ok (step db req)"
  unfolding step_def pay_status_ok_def
  by (cases req)
     (auto simp: handler_defs update_booking_def Let_def
           split: option.splits if_splits form_date.splits prod.splits)

lemma step_one_review: "one_review db \<Longrightarrow> one_review (step db req)"
  unfolding step_def one_review_def
  by (cases req)
     (auto simp: handler_defs update_booking_def Let_def distinct_map_filter find_None_iff
           split: option.splits if_splits form_date.splits prod.splits)

lemma step_ids_distinct: "ids_distinct db \<Longrightarrow> ids_distinct (step db req)"
  unfolding step_def ids_distinct_def
  by (cases req)
     (auto simp: handler_defs Let_def distinct_map_filter fresh_id_booking ids_update_booking
           split: option.splits if_splits form_date.splits prod.splits)

lemma reachable_invariants:
  "reachable db \<Longrightarrow> ids_distinct db \<and> one_review db \<and> pay_status_ok db"
proof (induction rule: reachable.induct)
  case (initial db)
  then show ?case by (simp add: ids_distinct_def one_review_def pay_status_ok_def)
next
  case (request db req)
  then show ?case by (simp add: step_ids_distinct step_one_review step_pay_status_ok)
qed

lemma reachable_run: "reachable db \<Longrightarrow> reachable (run db reqs)"
  unfolding run_def
  by (induction reqs arbitrary: db) (auto intro: reachable.request)

lemma reachable_initial_db: "reachable initial_db"
  by (rule reachable.initial) (simp_all add: initial_db_def)

lemma billable_days_pos: "1 \<le> billable_days bs b"
  by (simp add: billable_days_def Let_def)

lemma total_price_nonneg: "0 \<le> total_price db b"
proof -
  have "0 \<le> (of_int (billable_days (bookings db) b) :: rat)"
    using billable_days_pos[of "bookings db" b] by simp
  then show ?thesis
    unfolding total_price_def Let_def
    by (intro py_round2_nonneg mult_nonneg_nonneg parse_price_nonneg)
qed

lemma parse_price_drop: "\<not> price_char c \<Longrightarrow> parse_price (c # s) = parse_price s"
  by (cases s) (auto simp: parse_price_def strip_non_price_def py_float_def)

lemma scenario_bookings:
  "bookings scenario_db =
     [\<lparr>b_id = 1, b_user_id = 1, b_car_id = 1, b_pickup_date = feb 1, b_return_date = feb 10,
       b_notes = None, b_status = ''Approved'', b_payment_method = None,
       b_payment_status = ''Unpaid''\<rparr>,
      \<lparr>b_id = 2, b_user_id = 2, b_car_id = 1, b_pickup_date = feb 5, b_return_date = feb 15,
       b_notes = None, b_status = ''Pending'', b_payment_method = None,
       b_payment_status = ''Unpaid''\<rparr>]"
  by (simp add: example_defs eval_defs)

subsection \<open>Facts about the handlers\<close>

lemma step_statuses_valid: "statuses_valid db \<Longrightarrow> statuses_valid (step db req)"
  unfolding step_def statuses_valid_def
  by (cases req)
     (auto simp: handler_defs update_booking_def Let_def is_valid_status_def
           split: option.splits if_splits form_date.splits prod.splits)

lemma get_booking_mem: "get_booking db i = Some b \<Longrightarrow> b \<in> set (bookings db) \<and> b_id b = i"
  by (auto simp: get_booking_def find_Some_iff)

lemma find_map_id:
  assumes "\<And>b. b_id (g b) = b_id b"
  shows "find (\<lambda>b. b_id b = i) (map g bs) = map_option g (find (\<lambda>b. b_id b = i) bs)"
  using assms by (induction bs) auto

lemma get_booking_update:
  assumes "\<And>b. b_id (f b) = b_id b"
  shows "get_booking (update_booking j f db) i =
           map_option (\<lambda>b. if b_id b = j then f b else b) (get_booking db i)"
  unfolding get_booking_def update_booking_def
  using assms by (simp add: find_map_id)

lemma find_append_Some: "find P xs = Some x \<Longrightarrow> find P (xs @ ys) = Some x"
  by (induction xs) (auto split: if_splits)

lemma find_filter_other:
  "find (\<lambda>b. b_id b = i) (filter (\<lambda>b. b_id b \<noteq> j) bs) =
     (if i = j then None else find (\<lambda>b. b_id b = i) bs)"
  by (induction bs) auto

lemma find_filter_car:
  assumes "distinct (map b_id bs)" "find (\<lambda>b. b_id b = i) bs = Some b"
  shows "find (\<lambda>b. b_id b = i) (filter (\<lambda>b. b_car_id b \<noteq> c) bs) =
           (if b_car_id b = c then None else Some b)"
  using assms
proof (induction bs)
  case Nil
  then show ?case by simp
next
  case (Cons x xs)
  show ?case
  proof (cases "b_id x = i")
    case True
    then have "x = b" using Cons.prems by simp
    moreover have "find (\<lambda>b. b_id b = i) (filter (\<lambda>b. b_car_id b \<noteq> c) xs) = None"
      using Cons.prems True by (force simp: find_None_iff image_iff)
    ultimately show ?thesis using True by simp
  next
    case False
    then show ?thesis using Cons by simp
  qed
qed

lemma approved_bookings:
  "bookings approved_db =
     [\<lparr>b_id = 1, b_user_id = 1, b_car_id = 1, b_pickup_date = feb 1, b_return_date = feb 10,
       b_notes = None, b_status = ''Approved'', b_payment_method = None,
       b_payment_status = ''Unpaid''\<rparr>]"
  by (simp add: example_defs eval_defs)

lemma returned_bookings:
  "bookings returned_db =
     [\<lparr>b_id = 1, b_user_id = 1, b_car_id = 1, b_pickup_date = feb 1, b_return_date = feb 10,
       b_notes = None, b_status = ''Returned'', b_payment_method = None,
       b_payment_status = ''Unpaid''\<rparr>]"
  by (simp add: example_defs eval_defs)

lemma returned_reviews: "reviews returned_db = []"
  by (simp add: example_defs eval_defs)

lemma reachable_examples:
  "reachable approved_db" "reachable returned_db" "reachable scenario_db"
  unfolding approved_db_def returned_db_def scenario_db_def
  by (intro reachable_run reachable_initial_db)+

lemma reachable_statuses_valid: "reachable db \<Longrightarrow> statuses_valid db"
proof (induction rule: reachable.induct)
  case (initial db)
  then show ?case by (simp add: statuses_valid_def)
next
  case (request db req)
  then show ?case by (simp add: step_statuses_valid)
qed

lemma admin_update_accepts:
  assumes "u_is_admin admin_user" and "get_booking db booking_id = Some booking"
    and "is_valid_status (b_status booking)"
  shows "snd (admin_update_booking_status db admin_user booking_id new_status) = StatusUpdated \<longleftrightarrow>
        (b_status booking = ''Pending'' \<and> new_status = Some ''Approved''
           \<and> \<not> hasConflict (bookings db) (b_car_id booking) (b_pickup_date booking)
                  (b_return_date booking) (Some (b_id booking)))
      \<or> (b_status booking = ''Pending'' \<and> new_status = Some ''Rejected'')
      \<or> (b_status booking = ''Pending'' \<and> new_status = Some ''Pending''
           \<and> b_payment_method booking \<in> {None, Some []})
      \<or> (b_status booking = ''Approved'' \<and> new_status \<in> {Some ''Approved'', Some ''Returned''})
      \<or> (b_status booking = ''Returned'' \<and> new_status \<in> {Some ''Returned'', Some ''Completed''})"
  using assms
  unfolding admin_update_booking_status_def Let_def hasConflict_def status_transition_error_def
    is_valid_status_def
  by (auto split: option.splits)

lemma admin_update_effect:
  "fst (admin_update_booking_status db admin_user booking_id new_status) =
     (case new_status of
        Some s \<Rightarrow>
          if snd (admin_update_booking_status db admin_user booking_id new_status) = StatusUpdated
          then update_booking booking_id (\<lambda>b. b\<lparr>b_status := s\<rparr>) db else db
      | None \<Rightarrow> db)"
  unfolding admin_update_booking_status_def Let_def
  by (auto split: option.splits)

lemma admin_update_pending_payment:
  assumes "u_is_admin admin_user" and "get_booking db booking_id = Some booking"
    and "b_payment_method booking \<notin> {None, Some []}"
  shows "admin_update_booking_status db admin_user booking_id (Some ''Pending'')
           = (db, PendingWithPayment)"
  using assms unfolding admin_update_booking_status_def Let_def by auto

lemma admin_update_overlap:
  assumes "u_is_admin admin_user" and "get_booking db booking_id = Some booking"
    and "b_status booking = ''Pending''"
    and "hasConflict (bookings db) (b_car_id booking) (b_pickup_date booking)
           (b_return_date booking) (Some (b_id booking))"
  shows "admin_update_booking_status db admin_user booking_id (Some ''Approved'')
           = (db, DateOverlap (map (\<lambda>cb. (b_id cb, b_pickup_date cb, b_return_date cb))
                (conflicting_bookings (bookings db) (b_car_id booking) (b_pickup_date booking)
                   (b_return_date booking) (Some (b_id booking)))))"
  using assms unfolding admin_update_booking_status_def Let_def hasConflict_def by auto

lemma admin_update_terminal:
  assumes "u_is_admin admin_user" and "get_booking db booking_id = Some booking"
    and "b_status booking \<in> {''Rejected'', ''Completed''}"
  shows "admin_update_booking_status db admin_user booking_id new_status
           = (db, if new_status = Some ''Pending'' \<and> b_payment_method booking \<notin> {None, Some []}
                  then PendingWithPayment
                  else IllegalTransition (if b_status booking = ''Rejected'' then FromRejected
                                          else FromCompleted))"
  using assms unfolding admin_update_booking_status_def Let_def status_transition_error_def
  by auto

lemma find_update:
  assumes "\<And>b. b_id (f b) = b_id b"
  shows "find (\<lambda>b. b_id b = i) (map (\<lambda>b. if b_id b = j then f b else b) bs) =
           map_option (\<lambda>b. if b_id b = j then f b else b) (find (\<lambda>b. b_id b = i) bs)"
  using assms by (induction bs) auto

lemma find_id: "find (\<lambda>b. b_id b = i) bs = Some b \<Longrightarrow> b_id b = i"
  by (auto simp: find_Some_iff)

lemma admin_update_admin:
  "snd (admin_update_booking_status db u j s) = StatusUpdated \<Longrightarrow> u_is_admin u"
  unfolding admin_update_booking_status_def Let_def
  by (cases "u_is_admin u") simp_all

lemma reviews_update_booking: "reviews (update_booking j f db) = reviews db"
  by (simp add: update_booking_def)

lemma review_effect:
  "fst (review db u j form ok) =
     (if snd (review db u j form ok) = ReviewSaved
      then update_booking j (\<lambda>b. b\<lparr>b_status := ''Completed''\<rparr>)
              (db\<lparr>reviews := reviews db @
                 [\<lparr>r_id = fresh_id (map r_id (reviews db)), r_user_id = u_id u,
                   r_car_id = (case get_booking db j of Some b \<Rightarrow> b_car_id b | None \<Rightarrow> 0),
                   r_booking_id = j, r_rating = rf_rating form,
                   r_comment = (if rf_comment form = [] then None else Some (rf_comment form))\<rparr>]\<rparr>)
      else db)"
  unfolding review_def Let_def
  by (simp split: option.splits)

lemma review_saved_iff:
  "snd (review db u j form ok) = ReviewSaved \<longleftrightarrow>
     (\<exists>b. get_booking db j = Some b \<and> b_user_id b = u_id u \<and> b_status b = ''Returned'')
     \<and> find (\<lambda>r. r_booking_id r = j) (reviews db) = None \<and> rf_valid form \<and> ok"
  unfolding review_def Let_def
  by (simp split: option.splits)

lemma cash_bookings:
  "bookings cash_db =
     [\<lparr>b_id = 1, b_user_id = 1, b_car_id = 1, b_pickup_date = feb 1, b_return_date = feb 10,
       b_notes = None, b_status = ''Approved'', b_payment_method = Some ''Cash'',
       b_payment_status = ''Unpaid''\<rparr>]"
  by (simp add: cash_db_def run_def step_def confirmation_payment_def get_booking_def
      approved_bookings update_booking_def alice_def)

lemma rejected_bookings:
  "bookings rejected_db =
     [\<lparr>b_id = 1, b_user_id = 1, b_car_id = 1, b_pickup_date = feb 1, b_return_date = feb 10,
       b_notes = None, b_status = ''Approved'', b_payment_method = None,
       b_payment_status = ''Unpaid''\<rparr>,
      \<lparr>b_id = 2, b_user_id = 2, b_car_id = 1, b_pickup_date = feb 5, b_return_date = feb 15,
       b_notes = None, b_status = ''Rejected'', b_payment_method = None,
       b_payment_status = ''Unpaid''\<rparr>]"
  by (simp add: rejected_db_def run_def step_def admin_update_booking_status_def get_booking_def
      scenario_bookings update_booking_def admin_def status_transition_error_def
      is_valid_status_def Let_def)

lemma reachable_more: "reachable cash_db" "reachable rejected_db"
  unfolding cash_db_def rejected_db_def
  by (intro reachable_run reachable_examples)+

lemma distinct_filter_le1:
  "distinct (map f xs) \<Longrightarrow> length (filter (\<lambda>x. f x = i) xs) \<le> 1"
proof (induction xs)
  case Nil
  then show ?case by simp
next
  case (Cons x xs)
  show ?case
  proof (cases "f x = i")
    case True
    then have "filter (\<lambda>x. f x = i) xs = []"
      using Cons.prems by (force simp: filter_empty_conv image_iff)
    with True show ?thesis by simp
  next
    case False
    with Cons show ?thesis by simp
  qed
qed

lemma review_not_returned:
  assumes "get_booking db i = Some b" and "b_status b \<noteq> ''Returned''"
  shows "review db u i form ok = (db, if b_user_id b \<noteq> u_id u then AccessDenied else NotReturned)"
  using assms by (simp add: review_def)

lemma confirmation_payment_changes:
  "fst (confirmation_payment db u i pm) \<noteq> db \<Longrightarrow>
     \<exists>b. get_booking db i = Some b \<and> b_status b = ''Approved'' \<and> b_user_id b = u_id u"
  by (auto simp: confirmation_payment_def split: option.splits if_splits)

lemma confirmation_payment_selects:
  assumes "get_booking db i = Some b" and "b_status b = ''Approved''"
    and "b_user_id b = u_id u" and "chosen \<noteq> []"
  shows "get_booking (fst (confirmation_payment db u i (Some chosen))) i =
           Some (b\<lparr>b_payment_method := Some chosen,
                   b_payment_status := (if chosen = ''Cash'' then ''Unpaid''
                                        else b_payment_status b)\<rparr>)"
proof -
  have bi: "b_id b = i" using assms(1) by (simp add: get_booking_mem)
  let ?f = "\<lambda>b. if chosen = ''Cash''
                 then b\<lparr>b_payment_method := Some chosen, b_payment_status := ''Unpaid''\<rparr>
                 else b\<lparr>b_payment_method := Some chosen\<rparr>"
  have "fst (confirmation_payment db u i (Some chosen)) = update_booking i ?f db"
    using assms by (simp add: confirmation_payment_def)
  moreover have "get_booking (update_booking i ?f db) i =
      map_option (\<lambda>b. if b_id b = i then ?f b else b) (get_booking db i)"
    by (rule get_booking_update) simp
  ultimately show ?thesis
    using assms(1) bi by simp
qed

lemma process_payment_pays:
  assumes "get_booking db i = Some b" and "b_status b = ''Approved''"
    and "b_user_id b = u_id u"
  shows "get_booking (fst (process_payment db u i (Some pm))) i =
           Some (b\<lparr>b_payment_method := pm, b_payment_status := ''Paid''\<rparr>)"
proof -
  have bi: "b_id b = i" using assms(1) by (simp add: get_booking_mem)
  let ?f = "\<lambda>b. b\<lparr>b_payment_method := pm, b_payment_status := ''Paid''\<rparr>"
  have "fst (process_payment db u i (Some pm)) = update_booking i ?f db"
    using assms by (simp add: process_payment_def)
  moreover have "get_booking (update_booking i ?f db) i =
      map_option (\<lambda>b. if b_id b = i then ?f b else b) (get_booking db i)"
    by (rule get_booking_update) simp
  ultimately show ?thesis
    using assms(1) bi by simp
qed

section \<open>The claims\<close>

subsection \<open>Availability\<close>

text \<open>
  Claim C2. The conflict query answers true exactly when some booking of the car, other
  than the excluded one, is Approved, Returned or Completed and has
  \<open>return_date \<ge> candidateStart\<close> and \<open>pickup_date \<le> candidateEnd\<close>. Pending and
  Rejected bookings never count: dropping them from the table does not change the answer.
  The query changes nothing: it is a function of the table, and the two handlers that
  find a conflict (booking submission, and the approval of a pending booking) leave the
  database as it was.
\<close>

theorem C2_hasConflict:
  "(hasConflict bs car_id candidateStart candidateEnd excludeBookingId \<longleftrightarrow>
      (\<exists>existing \<in> set bs.
          b_car_id existing = car_id
        \<and> Some (b_id existing) \<noteq> excludeBookingId
        \<and> b_status existing \<in> {''Approved'', ''Returned'', ''Completed''}
        \<and> b_return_date existing \<ge> candidateStart
        \<and> b_pickup_date existing \<le> candidateEnd))
   \<and> hasConflict (filter (\<lambda>b. b_status b \<notin> {''Pending'', ''Rejected''}) bs)
        car_id candidateStart candidateEnd excludeBookingId
      = hasConflict bs car_id candidateStart candidateEnd excludeBookingId
   \<and> (hasConflict (bookings db) (bf_car form) (bf_pickup form) (bf_return_date form) None
        \<longrightarrow> fst (book db current_user form) = db)
   \<and> (get_booking db booking_id = Some booking
        \<and> b_status booking = ''Pending''
        \<and> hasConflict (bookings db) (b_car_id booking) (b_pickup_date booking)
             (b_return_date booking) (Some (b_id booking))
        \<longrightarrow> fst (admin_update_booking_status db admin_user booking_id (Some ''Approved'')) = db)"
proof -
  have pure1: "fst (book db current_user form) = db"
    if "hasConflict (bookings db) (bf_car form) (bf_pickup form) (bf_return_date form) None"
    using that by (simp add: book_def)
  have pure2: "fst (admin_update_booking_status db admin_user booking_id (Some ''Approved'')) = db"
    if "get_booking db booking_id = Some booking" "b_status booking = ''Pending''"
       "hasConflict (bookings db) (b_car_id booking) (b_pickup_date booking)
             (b_return_date booking) (Some (b_id booking))"
    using that by (simp add: admin_update_booking_status_def hasConflict_def Let_def)
  have ignore: "hasConflict (filter (\<lambda>b. b_status b \<notin> {''Pending'', ''Rejected''}) bs)
        car_id candidateStart candidateEnd excludeBookingId
      = hasConflict bs car_id candidateStart candidateEnd excludeBookingId"
    by (auto simp: hasConflict_iff)
  show ?thesis
    using pure1 pure2 ignore hasConflict_iff[of bs car_id candidateStart candidateEnd excludeBookingId]
    by blast
qed

text \<open>
  The scenario of the specification: Alice's booking of 1 to 10 February is approved,
  and 5 to 15 February is asked for the same car.
\<close>

theorem C2_hasConflict_witness:
  "hasConflict (bookings scenario_db) 1 (feb 5) (feb 15) None
   \<and> fst (book scenario_db bob (booking_request (feb 5) (feb 15))) = scenario_db
   \<and> hasConflict (bookings scenario_db) 1 (feb 5) (feb 15) (Some 2)
   \<and> fst (admin_update_booking_status scenario_db admin 2 (Some ''Approved'')) = scenario_db"
proof -
  have c1: "hasConflict (bookings scenario_db) 1 (feb 5) (feb 15) None"
    by (simp add: scenario_bookings hasConflict_def conflicting_bookings_def
        blocking_statuses_def feb_def)
  have c2: "hasConflict (bookings scenario_db) 1 (feb 5) (feb 15) (Some 2)"
    by (simp add: scenario_bookings hasConflict_def conflicting_bookings_def
        blocking_statuses_def feb_def)
  let ?b = "\<lparr>b_id = 2, b_user_id = 2, b_car_id = 1, b_pickup_date = feb 5,
       b_return_date = feb 15, b_notes = None, b_status = ''Pending'', b_payment_method = None,
       b_payment_status = ''Unpaid''\<rparr>"
  have g: "get_booking scenario_db 2 = Some ?b"
    by (simp add: get_booking_def scenario_bookings)
  show ?thesis
    using c1 c2 g
      C2_hasConflict[where bs = "bookings scenario_db" and car_id = 1
        and candidateStart = "feb 5" and candidateEnd = "feb 15"
        and excludeBookingId = None and db = scenario_db
        and form = "booking_request (feb 5) (feb 15)" and current_user = bob
        and booking_id = 2 and booking = ?b and admin_user = admin]
    by (simp add: booking_request_def)
qed

subsection \<open>Pricing\<close>


text \<open>
  Claim C8. Price parsing keeps the digits and full stops of the string, converts what
  is left, and gives 0 when that is not a number or the string is empty. The peso sign is
  the three bytes E2 82 B1.
\<close>

theorem C8_parse_price:
  "parse_price s =
     (case py_float (filter (\<lambda>c. c \<in> set ''0123456789.'') s) of Some v \<Rightarrow> v | None \<Rightarrow> 0)
   \<and> parse_price ([CHR 0xE2, CHR 0x82, CHR 0xB1] @ ''2,200.50abc'') = 2200.50
   \<and> parse_price '''' = 0
   \<and> parse_price ''N/A'' = 0"
proof -
  have keep: "price_char = (\<lambda>c. c \<in> set ''0123456789.'')"
    by (auto simp: price_char_def is_digit_def fun_eq_iff)
  have empty: "py_float [] = None"
    by (simp add: py_float_def)
  have general: "parse_price s =
     (case py_float (filter (\<lambda>c. c \<in> set ''0123456789.'') s) of Some v \<Rightarrow> v | None \<Rightarrow> 0)"
    unfolding parse_price_def strip_non_price_def keep
    by (cases s) (simp_all add: empty)
  have ex1: "parse_price ([CHR 0xE2, CHR 0x82, CHR 0xB1] @ ''2,200.50abc'') = 2200.50"
    by (simp add: parse_price_def strip_non_price_def price_char_def is_digit_def py_float_def
        decimal_value_def digit_value_def)
  have ex2: "parse_price '''' = 0"
    by (simp add: parse_price_def)
  have ex3: "parse_price ''N/A'' = 0"
    by (simp add: parse_price_def strip_non_price_def price_char_def is_digit_def py_float_def)
  from general ex1 ex2 ex3 show ?thesis by blast
qed

text \<open>
  Claim C9. The inclusive day count is the difference of the two dates plus one, and 1
  when that is less than 1; so it is 1 for a single day and never below 1.
\<close>

theorem C9_inclusiveDays:
  "inclusiveDays start end = max 1 ((end - start) + 1)
   \<and> inclusiveDays d d = 1
   \<and> 1 \<le> inclusiveDays start end"
  by (simp add: inclusiveDays_def Let_def max_def)

text \<open>
  Claim C10. The parsed price is never negative: a sign in front of the string is removed
  with the other characters, so the per-day rate and the total of the confirmation page
  are never negative.
\<close>

theorem C10_price_nonneg:
  "0 \<le> parse_price s
   \<and> parse_price (CHR ''-'' # s) = parse_price s
   \<and> parse_price (CHR ''+'' # s) = parse_price s
   \<and> 0 \<le> total_price db b"
proof -
  have "\<not> price_char (CHR ''-'')" "\<not> price_char (CHR ''+'')"
    by (simp_all add: price_char_def is_digit_def)
  then show ?thesis
    by (simp add: parse_price_nonneg parse_price_drop total_price_nonneg)
qed

subsection \<open>No two blocking bookings of a car on the same day\<close>

text \<open>
  Claim C1 asks that in every reachable state two bookings of one car that are both
  Approved, Returned or Completed have disjoint date ranges. Booking submission and
  approval run the conflict query; the owner's edit of an approved booking writes the new
  dates without it. Five requests reach a state where bookings 1 and 2 of car 1 are both
  approved and share 5 to 10 February.
\<close>

theorem C1_edit_overlap:
  "reachable (run initial_db overlap_trace)
   \<and> map (\<lambda>b. (b_id b, b_car_id b, b_status b, b_pickup_date b, b_return_date b))
         (bookings (run initial_db overlap_trace))
       = [(1, 1, ''Approved'', feb 1, feb 10), (2, 1, ''Approved'', feb 5, feb 15)]
   \<and> {feb 1..feb 10} \<inter> {feb 5..feb 15} = {feb 5..feb 10}"
proof -
  have "map (\<lambda>b. (b_id b, b_car_id b, b_status b, b_pickup_date b, b_return_date b))
         (bookings (run initial_db overlap_trace))
       = [(1, 1, ''Approved'', feb 1, feb 10), (2, 1, ''Approved'', feb 5, feb 15)]"
    by (simp add: example_defs eval_defs)
  moreover have "{feb 1..feb 10} \<inter> {feb 5..feb 15} = {feb 5..feb 10}"
    by (auto simp: feb_def)
  ultimately show ?thesis
    using reachable_run[OF reachable_initial_db, of overlap_trace] by simp
qed

subsection \<open>The admin status update\<close>

text \<open>
  Claim C4 says the admin status update accepts, from Approved, only Returned, and lists
  no request it accepts on a Returned booking. The source accepts a request for the
  status the booking already has (from Approved, and from Pending when no payment method
  is recorded), and on a Returned booking it refuses only Pending, Approved and Rejected:
  the admin can mark it Completed with no review.
\<close>

theorem C4_counterexample:
  "map b_status (bookings approved_db) = [''Approved'']
   \<and> snd (admin_update_booking_status approved_db admin 1 (Some ''Approved'')) = StatusUpdated
   \<and> map b_status (bookings returned_db) = [''Returned'']
   \<and> reviews returned_db = []
   \<and> admin_update_booking_status returned_db admin 1 (Some ''Completed'')
       = (update_booking 1 (\<lambda>b. b\<lparr>b_status := ''Completed''\<rparr>) returned_db, StatusUpdated)"
  by (simp add: approved_bookings returned_bookings returned_reviews admin_def
      admin_update_booking_status_def get_booking_def conflicting_bookings_def
      status_transition_error_def is_valid_status_def Let_def)

text \<open>
  Claim C4, amended. In a reachable state, for an admin and an existing booking, the
  status update accepts exactly: from Pending, Approved (when no blocking booking of the
  same car overlaps), Rejected, and Pending (when no payment method is recorded); from
  Approved, Approved and Returned; from Returned, Returned and Completed. An accepted
  request writes the new status and nothing else; every other request leaves the database
  as it was. A request for Pending on a booking with a payment method is refused for that
  reason; an approval refused for overlap reports the id and the dates of every
  conflicting booking; every request on a Rejected or Completed booking is refused.
\<close>

theorem C4_admin_update_transitions:
  assumes "reachable db" and "u_is_admin admin_user"
    and "get_booking db booking_id = Some booking"
  shows
    "(snd (admin_update_booking_status db admin_user booking_id new_status) = StatusUpdated \<longleftrightarrow>
        (b_status booking = ''Pending'' \<and> new_status = Some ''Approved''
           \<and> \<not> hasConflict (bookings db) (b_car_id booking) (b_pickup_date booking)
                  (b_return_date booking) (Some (b_id booking)))
      \<or> (b_status booking = ''Pending'' \<and> new_status = Some ''Rejected'')
      \<or> (b_status booking = ''Pending'' \<and> new_status = Some ''Pending''
           \<and> b_payment_method booking \<in> {None, Some []})
      \<or> (b_status booking = ''Approved'' \<and> new_status \<in> {Some ''Approved'', Some ''Returned''})
      \<or> (b_status booking = ''Returned'' \<and> new_status \<in> {Some ''Returned'', Some ''Completed''}))
     \<and> fst (admin_update_booking_status db admin_user booking_id new_status) =
         (case new_status of
            Some s \<Rightarrow>
              if snd (admin_update_booking_status db admin_user booking_id new_status) = StatusUpdated
              then update_booking booking_id (\<lambda>b. b\<lparr>b_status := s\<rparr>) db else db
          | None \<Rightarrow> db)
     \<and> (b_payment_method booking \<notin> {None, Some []} \<longrightarrow>
          admin_update_booking_status db admin_user booking_id (Some ''Pending'')
            = (db, PendingWithPayment))
     \<and> (b_status booking = ''Pending''
          \<and> hasConflict (bookings db) (b_car_id booking) (b_pickup_date booking)
               (b_return_date booking) (Some (b_id booking)) \<longrightarrow>
          admin_update_booking_status db admin_user booking_id (Some ''Approved'')
            = (db, DateOverlap (map (\<lambda>cb. (b_id cb, b_pickup_date cb, b_return_date cb))
                 (conflicting_bookings (bookings db) (b_car_id booking) (b_pickup_date booking)
                    (b_return_date booking) (Some (b_id booking))))))
     \<and> (b_status booking \<in> {''Rejected'', ''Completed''} \<longrightarrow>
          admin_update_booking_status db admin_user booking_id new_status
            = (db, if new_status = Some ''Pending'' \<and> b_payment_method booking \<notin> {None, Some []}
                   then PendingWithPayment
                   else IllegalTransition (if b_status booking = ''Rejected'' then FromRejected
                                           else FromCompleted)))"
proof -
  have "booking \<in> set (bookings db)"
    using assms(3) by (simp add: get_booking_mem)
  then have valid: "is_valid_status (b_status booking)"
    using reachable_statuses_valid[OF assms(1)] by (simp add: statuses_valid_def)
  show ?thesis
    using admin_update_accepts[OF assms(2,3) valid, of new_status]
      admin_update_effect[of db admin_user booking_id new_status]
      admin_update_pending_payment[OF assms(2,3)]
      admin_update_overlap[OF assms(2,3)]
      admin_update_terminal[OF assms(2,3), of new_status]
    by blast
qed

theorem C4_admin_update_transitions_witness:
  "reachable scenario_db \<and> u_is_admin admin
   \<and> admin_update_booking_status scenario_db admin 2 (Some ''Approved'')
       = (scenario_db, DateOverlap [(1, feb 1, feb 10)])
   \<and> snd (admin_update_booking_status scenario_db admin 2 (Some ''Rejected'')) = StatusUpdated
   \<and> snd (admin_update_booking_status scenario_db admin 1 (Some ''Returned'')) = StatusUpdated
   \<and> admin_update_booking_status cash_db admin 1 (Some ''Pending'') = (cash_db, PendingWithPayment)
   \<and> admin_update_booking_status rejected_db admin 2 (Some ''Approved'')
       = (rejected_db, IllegalTransition FromRejected)"
proof -
  let ?a = "\<lparr>b_id = 1, b_user_id = 1, b_car_id = 1, b_pickup_date = feb 1,
       b_return_date = feb 10, b_notes = None, b_status = ''Approved'', b_payment_method = None,
       b_payment_status = ''Unpaid''\<rparr>"
  let ?b = "\<lparr>b_id = 2, b_user_id = 2, b_car_id = 1, b_pickup_date = feb 5,
       b_return_date = feb 15, b_notes = None, b_status = ''Pending'', b_payment_method = None,
       b_payment_status = ''Unpaid''\<rparr>"
  let ?c = "\<lparr>b_id = 1, b_user_id = 1, b_car_id = 1, b_pickup_date = feb 1,
       b_return_date = feb 10, b_notes = None, b_status = ''Approved'',
       b_payment_method = Some ''Cash'', b_payment_status = ''Unpaid''\<rparr>"
  let ?r = "\<lparr>b_id = 2, b_user_id = 2, b_car_id = 1, b_pickup_date = feb 5,
       b_return_date = feb 15, b_notes = None, b_status = ''Rejected'', b_payment_method = None,
       b_payment_status = ''Unpaid''\<rparr>"
  have adm: "u_is_admin admin" by (simp add: admin_def)
  have ga: "get_booking scenario_db 1 = Some ?a" and gb: "get_booking scenario_db 2 = Some ?b"
    by (simp_all add: get_booking_def scenario_bookings)
  have gc: "get_booking cash_db 1 = Some ?c"
    by (simp add: get_booking_def cash_bookings)
  have gr: "get_booking rejected_db 2 = Some ?r"
    by (simp add: get_booking_def rejected_bookings)
  have conf: "conflicting_bookings (bookings scenario_db) 1 (feb 5) (feb 15) (Some 2) = [?a]"
    by (simp add: scenario_bookings conflicting_bookings_def blocking_statuses_def feb_def)
  note b = C4_admin_update_transitions[OF reachable_examples(3) adm gb]
  note a = C4_admin_update_transitions[OF reachable_examples(3) adm ga]
  note c = C4_admin_update_transitions[OF reachable_more(1) adm gc]
  note r = C4_admin_update_transitions[OF reachable_more(2) adm gr]
  have 1: "admin_update_booking_status scenario_db admin 2 (Some ''Approved'')
       = (scenario_db, DateOverlap [(1, feb 1, feb 10)])"
    using b[of "Some ''Approved''"] conf by (simp add: hasConflict_def)
  have 2: "snd (admin_update_booking_status scenario_db admin 2 (Some ''Rejected'')) = StatusUpdated"
    using b[of "Some ''Rejected''"] by simp
  have 3: "snd (admin_update_booking_status scenario_db admin 1 (Some ''Returned'')) = StatusUpdated"
    using a[of "Some ''Returned''"] by simp
  have 4: "admin_update_booking_status cash_db admin 1 (Some ''Pending'') = (cash_db, PendingWithPayment)"
    using c[of "Some ''Pending''"] by simp
  have 5: "admin_update_booking_status rejected_db admin 2 (Some ''Approved'')
       = (rejected_db, IllegalTransition FromRejected)"
    using r[of "Some ''Approved''"] by simp
  from 1 2 3 4 5 adm reachable_examples(3) show ?thesis by simp
qed

subsection \<open>From Returned to Completed\<close>

text \<open>
  Claim C5 says only review submission takes a booking from Returned to Completed. The
  admin status update does it too, and writes no review.
\<close>

theorem C5_counterexample:
  "map b_status (bookings returned_db) = [''Returned'']
   \<and> map b_status (bookings (step returned_db (AdminUpdateBookingStatus admin 1 (Some ''Completed''))))
       = [''Completed'']
   \<and> reviews (step returned_db (AdminUpdateBookingStatus admin 1 (Some ''Completed''))) = []"
  by (simp add: returned_bookings returned_reviews admin_def step_def
      admin_update_booking_status_def get_booking_def conflicting_bookings_def update_booking_def
      status_transition_error_def is_valid_status_def Let_def)

text \<open>
  Claim C5, amended. In a reachable state, a request that takes a booking from Returned
  to Completed is either a review submitted by the booking's owner, whose commit also
  appends one review row for that booking, or an admin status update to Completed, which
  leaves the reviews as they were. No other request does it.
\<close>

theorem C5_returned_to_completed:
  assumes "reachable db" and "get_booking db i = Some b" and "b_status b = ''Returned''"
    and "get_booking (step db req) i = Some b'" and "b_status b' = ''Completed''"
  shows "(\<exists>u form r. req = SubmitReview u i form True \<and> u_id u = b_user_id b
            \<and> reviews (step db req) = reviews db @ [r] \<and> r_booking_id r = i)
       \<or> (\<exists>u. req = AdminUpdateBookingStatus u i (Some ''Completed'') \<and> u_is_admin u
            \<and> reviews (step db req) = reviews db)"
proof -
  have d: "distinct (map b_id (bookings db))"
    using reachable_invariants[OF assms(1)] by (simp add: ids_distinct_def)
  have f: "find (\<lambda>b. b_id b = i) (bookings db) = Some b"
    using assms(2) by (simp add: get_booking_def)
  have bi: "b_id b = i" using f by (rule find_id)
  note car = find_filter_car[OF d f]
  note app = find_append_Some[OF f]
  show ?thesis
  proof (cases req)
    case (Book u form)
    then show ?thesis
      using assms(3-5) f app
      by (auto simp: step_def book_def get_booking_def split: if_splits)
  next
    case (ViewConfirmation u j)
    then show ?thesis
      using assms(3-5) f
      by (auto simp: step_def confirmation_def get_booking_def split: if_splits option.splits)
  next
    case (ConfirmationPayment u j pm)
    then show ?thesis
      using assms(3-5) f
      by (auto simp: step_def confirmation_payment_def get_booking_def update_booking_def
          find_update split: if_splits option.splits)
  next
    case (ProcessPayment u j d)
    then show ?thesis
      using assms(3-5) f
      by (auto simp: step_def process_payment_def get_booking_def update_booking_def
          find_update split: if_splits option.splits)
  next
    case (EditBooking u j form)
    then show ?thesis
      using assms(3-5) f
      by (auto simp: step_def edit_booking_def get_booking_def update_booking_def
          find_update split: if_splits option.splits form_date.splits prod.splits)
  next
    case (DeleteBooking u j)
    then show ?thesis
      using assms(3-5) f
      by (auto simp: step_def delete_booking_def get_booking_def find_filter_other
          split: if_splits option.splits)
  next
    case (SubmitReview u j form ok)
    show ?thesis
    proof (cases "snd (review db u j form ok) = ReviewSaved")
      case True
      let ?r = "\<lparr>r_id = fresh_id (map r_id (reviews db)), r_user_id = u_id u,
                   r_car_id = (case get_booking db j of Some b \<Rightarrow> b_car_id b | None \<Rightarrow> 0),
                   r_booking_id = j, r_rating = rf_rating form,
                   r_comment = (if rf_comment form = [] then None else Some (rf_comment form))\<rparr>"
      have st: "step db req = update_booking j (\<lambda>b. b\<lparr>b_status := ''Completed''\<rparr>)
                  (db\<lparr>reviews := reviews db @ [?r]\<rparr>)"
        using True SubmitReview review_effect[of db u j form ok] by (simp add: step_def)
      have "get_booking (step db req) i =
              map_option (\<lambda>b. if b_id b = j then b\<lparr>b_status := ''Completed''\<rparr> else b)
                (get_booking (db\<lparr>reviews := reviews db @ [?r]\<rparr>) i)"
        unfolding st by (rule get_booking_update) simp
      also have "get_booking (db\<lparr>reviews := reviews db @ [?r]\<rparr>) i = Some b"
        using assms(2) by (simp add: get_booking_def)
      finally have "b' = (if b_id b = j then b\<lparr>b_status := ''Completed''\<rparr> else b)"
        using assms(4) by simp
      with assms(3,5) bi have ji: "j = i" by (auto split: if_splits)
      have own: "u_id u = b_user_id b" and ok: "ok"
        using True assms(2) ji by (auto simp: review_saved_iff)
      have "reviews (step db req) = reviews db @ [?r]"
        unfolding st by (simp add: reviews_update_booking)
      with SubmitReview ji own ok show ?thesis by auto
    next
      case False
      then have "step db req = db"
        using SubmitReview review_effect[of db u j form ok] by (simp add: step_def)
      with assms(2-5) show ?thesis by simp
    qed
  next
    case (AdminUpdateBookingStatus u j s)
    show ?thesis
    proof (cases "snd (admin_update_booking_status db u j s) = StatusUpdated")
      case True
      then obtain s' where s: "s = Some s'"
        and st: "step db req = update_booking j (\<lambda>b. b\<lparr>b_status := s'\<rparr>) db"
        using AdminUpdateBookingStatus admin_update_effect[of db u j s]
        by (cases s) (auto simp: step_def admin_update_booking_status_def Let_def
            split: option.splits if_splits)
      have "get_booking (step db req) i =
              map_option (\<lambda>b. if b_id b = j then b\<lparr>b_status := s'\<rparr> else b) (get_booking db i)"
        unfolding st by (rule get_booking_update) simp
      then have "b' = (if b_id b = j then b\<lparr>b_status := s'\<rparr> else b)"
        using assms(2,4) by simp
      with assms(3,5) bi have "j = i" "s' = ''Completed''" by (auto split: if_splits)
      moreover have "u_is_admin u" using True by (rule admin_update_admin)
      moreover have "reviews (step db req) = reviews db"
        unfolding st by (rule reviews_update_booking)
      ultimately show ?thesis using AdminUpdateBookingStatus s by simp
    next
      case False
      then have "step db req = db"
        using AdminUpdateBookingStatus admin_update_effect[of db u j s]
        by (simp add: step_def split: option.splits)
      with assms(2-5) show ?thesis by simp
    qed
  next
    case (AdminDeleteBooking u j)
    then show ?thesis
      using assms(3-5) f
      by (auto simp: step_def admin_delete_booking_def get_booking_def find_filter_other
          split: if_splits option.splits)
  next
    case (AdminAddCar u form)
    then show ?thesis
      using assms(3-5) f
      by (auto simp: step_def admin_add_car_def get_booking_def split: if_splits)
  next
    case (AdminEditCar u j form)
    then show ?thesis
      using assms(3-5) f
      by (auto simp: step_def admin_edit_car_def get_booking_def split: if_splits option.splits)
  next
    case (AdminDeleteCar u j)
    then show ?thesis
      using assms(3-5) f car
      by (auto simp: step_def admin_delete_car_def get_booking_def split: if_splits option.splits)
  qed
qed

theorem C5_returned_to_completed_witness:
  "reachable returned_db
   \<and> map_option b_status (get_booking returned_db 1) = Some ''Returned''
   \<and> map_option b_status
       (get_booking (step returned_db (SubmitReview alice 1 review_request True)) 1)
       = Some ''Completed''
   \<and> (\<exists>r. reviews (step returned_db (SubmitReview alice 1 review_request True))
              = reviews returned_db @ [r] \<and> r_booking_id r = 1)"
proof -
  let ?b = "\<lparr>b_id = 1, b_user_id = 1, b_car_id = 1, b_pickup_date = feb 1,
       b_return_date = feb 10, b_notes = None, b_status = ''Returned'', b_payment_method = None,
       b_payment_status = ''Unpaid''\<rparr>"
  let ?req = "SubmitReview alice 1 review_request True"
  have g: "get_booking returned_db 1 = Some ?b"
    by (simp add: get_booking_def returned_bookings)
  have g': "get_booking (step returned_db ?req) 1 = Some (?b\<lparr>b_status := ''Completed''\<rparr>)"
    by (simp add: step_def review_def get_booking_def returned_bookings returned_reviews
        update_booking_def alice_def review_request_def Let_def)
  have "(\<exists>u form r. ?req = SubmitReview u 1 form True \<and> u_id u = b_user_id ?b
            \<and> reviews (step returned_db ?req) = reviews returned_db @ [r] \<and> r_booking_id r = 1)
       \<or> (\<exists>u. ?req = AdminUpdateBookingStatus u 1 (Some ''Completed'') \<and> u_is_admin u
            \<and> reviews (step returned_db ?req) = reviews returned_db)"
    by (rule C5_returned_to_completed[OF reachable_examples(2) g _ g']) simp_all
  then have "\<exists>r. reviews (step returned_db ?req) = reviews returned_db @ [r] \<and> r_booking_id r = 1"
    by auto
  then show ?thesis
    using g g' reachable_examples(2) by simp
qed

subsection \<open>Review submission\<close>

text \<open>
  Claim C6. A submitted review whose form validates is saved exactly when the user owns
  the booking, the booking is Returned and no review names it. Saving appends one review
  row for the booking and sets the booking to Completed in the same commit; a second
  submission for that booking, by anyone, is then refused and changes nothing. A request
  that is not saved leaves the database as it was, and so does one whose commit fails. In
  every reachable state at most one review row names a given booking.
\<close>

theorem C6_review_submission:
  assumes "reachable db" and "rf_valid form"
  shows
    "(snd (review db u i form True) = ReviewSaved \<longleftrightarrow>
        (\<exists>b. get_booking db i = Some b \<and> b_user_id b = u_id u \<and> b_status b = ''Returned'')
        \<and> find (\<lambda>r. r_booking_id r = i) (reviews db) = None)
     \<and> (snd (review db u i form True) = ReviewSaved \<longrightarrow>
          (\<exists>r. reviews (fst (review db u i form True)) = reviews db @ [r]
                \<and> r_booking_id r = i \<and> r_user_id r = u_id u)
          \<and> map_option b_status (get_booking (fst (review db u i form True)) i) = Some ''Completed''
          \<and> snd (review (fst (review db u i form True)) u' i form' ok') \<in> {AccessDenied, NotReturned}
          \<and> fst (review (fst (review db u i form True)) u' i form' ok')
              = fst (review db u i form True))
     \<and> (snd (review db u i form ok) \<noteq> ReviewSaved \<longrightarrow> fst (review db u i form ok) = db)
     \<and> snd (review db u i form False) \<noteq> ReviewSaved
     \<and> fst (review db u i form False) = db
     \<and> length (filter (\<lambda>r. r_booking_id r = i) (reviews db)) \<le> 1"
proof -
  have iff: "snd (review db u i form True) = ReviewSaved \<longleftrightarrow>
        (\<exists>b. get_booking db i = Some b \<and> b_user_id b = u_id u \<and> b_status b = ''Returned'')
        \<and> find (\<lambda>r. r_booking_id r = i) (reviews db) = None"
    using assms(2) by (simp add: review_saved_iff)
  have fail: "snd (review db u i form ok) \<noteq> ReviewSaved \<longrightarrow> fst (review db u i form ok) = db"
    by (simp add: review_effect)
  have nocommit: "snd (review db u i form False) \<noteq> ReviewSaved"
    by (simp add: review_saved_iff)
  then have unchanged: "fst (review db u i form False) = db"
    by (simp add: review_effect)
  have "distinct (map r_booking_id (reviews db))"
    using reachable_invariants[OF assms(1)] by (simp add: one_review_def)
  then have one: "length (filter (\<lambda>r. r_booking_id r = i) (reviews db)) \<le> 1"
    by (rule distinct_filter_le1)
  have ok: "(\<exists>r. reviews (fst (review db u i form True)) = reviews db @ [r]
                \<and> r_booking_id r = i \<and> r_user_id r = u_id u)
          \<and> map_option b_status (get_booking (fst (review db u i form True)) i) = Some ''Completed''
          \<and> snd (review (fst (review db u i form True)) u' i form' ok') \<in> {AccessDenied, NotReturned}
          \<and> fst (review (fst (review db u i form True)) u' i form' ok')
              = fst (review db u i form True)"
    if saved: "snd (review db u i form True) = ReviewSaved"
  proof -
    let ?r = "\<lparr>r_id = fresh_id (map r_id (reviews db)), r_user_id = u_id u,
                r_car_id = (case get_booking db i of Some b \<Rightarrow> b_car_id b | None \<Rightarrow> 0),
                r_booking_id = i, r_rating = rf_rating form,
                r_comment = (if rf_comment form = [] then None else Some (rf_comment form))\<rparr>"
    let ?db' = "fst (review db u i form True)"
    from saved obtain b where b: "get_booking db i = Some b"
      using iff by blast
    have bi: "b_id b = i" using b by (simp add: get_booking_mem)
    have st: "?db' = update_booking i (\<lambda>b. b\<lparr>b_status := ''Completed''\<rparr>)
                       (db\<lparr>reviews := reviews db @ [?r]\<rparr>)"
      using saved by (simp add: review_effect)
    have rv: "reviews ?db' = reviews db @ [?r]"
      unfolding st by (simp add: reviews_update_booking)
    have "get_booking ?db' i =
            map_option (\<lambda>b. if b_id b = i then b\<lparr>b_status := ''Completed''\<rparr> else b)
              (get_booking (db\<lparr>reviews := reviews db @ [?r]\<rparr>) i)"
      unfolding st by (rule get_booking_update) simp
    also have "get_booking (db\<lparr>reviews := reviews db @ [?r]\<rparr>) i = Some b"
      using b by (simp add: get_booking_def)
    finally have g: "get_booking ?db' i = Some (b\<lparr>b_status := ''Completed''\<rparr>)"
      using bi by simp
    have second: "review ?db' u' i form' ok' =
        (?db', if b_user_id (b\<lparr>b_status := ''Completed''\<rparr>) \<noteq> u_id u'
               then AccessDenied else NotReturned)"
      by (rule review_not_returned[OF g]) simp
    show ?thesis
      using rv g second by simp
  qed
  show ?thesis
    using iff ok fail nocommit unchanged one by blast
qed

theorem C6_review_submission_witness:
  "reachable returned_db \<and> rf_valid review_request
   \<and> snd (review returned_db alice 1 review_request True) = ReviewSaved
   \<and> map_option b_status (get_booking (fst (review returned_db alice 1 review_request True)) 1)
       = Some ''Completed''
   \<and> snd (review (fst (review returned_db alice 1 review_request True)) alice 1 review_request True)
       \<in> {AccessDenied, NotReturned}
   \<and> fst (review returned_db alice 1 review_request False) = returned_db
   \<and> length (filter (\<lambda>r. r_booking_id r = 1) (reviews returned_db)) \<le> 1"
proof -
  let ?b = "\<lparr>b_id = 1, b_user_id = 1, b_car_id = 1, b_pickup_date = feb 1,
       b_return_date = feb 10, b_notes = None, b_status = ''Returned'', b_payment_method = None,
       b_payment_status = ''Unpaid''\<rparr>"
  have v: "rf_valid review_request" by (simp add: review_request_def)
  have g: "get_booking returned_db 1 = Some ?b"
    by (simp add: get_booking_def returned_bookings)
  have own: "b_user_id ?b = u_id alice" by (simp add: alice_def)
  have none: "find (\<lambda>r. r_booking_id r = 1) (reviews returned_db) = None"
    by (simp add: returned_reviews)
  show ?thesis
    using C6_review_submission[OF reachable_examples(2) v, of alice 1 alice review_request True True]
      v g own none reachable_examples(2)
    by simp
qed

subsection \<open>Payment\<close>

text \<open>
  Claim C7 says a reachable booking's payment method is unset, Cash, GCash or Card. The
  selection handler stores whatever non-empty string the request carries.
\<close>

theorem C7_counterexample:
  "reachable (step approved_db (ConfirmationPayment alice 1 (Some ''Bitcoin'')))
   \<and> map b_payment_method
         (bookings (step approved_db (ConfirmationPayment alice 1 (Some ''Bitcoin''))))
       = [Some ''Bitcoin'']"
proof -
  have "map b_payment_method
         (bookings (step approved_db (ConfirmationPayment alice 1 (Some ''Bitcoin''))))
       = [Some ''Bitcoin'']"
    by (simp add: step_def confirmation_payment_def get_booking_def approved_bookings
        update_booking_def alice_def)
  then show ?thesis
    using reachable.request[OF reachable_examples(1)] by simp
qed

text \<open>
  Claim C7, amended. In every reachable state each booking's payment status is Unpaid or
  Paid. The selection handler changes the database only for an Approved booking owned by
  the requesting user; there it stores the submitted method, sets the payment status to
  Unpaid for Cash and leaves it as it was for any other method. The payment-processing
  handler stores the method it is given and sets the status to Paid.
\<close>

theorem C7_payment:
  assumes "reachable db"
  shows
    "(\<forall>b \<in> set (bookings db). b_payment_status b \<in> {''Unpaid'', ''Paid''})
     \<and> (fst (confirmation_payment db u i pm) \<noteq> db \<longrightarrow>
          (\<exists>b. get_booking db i = Some b \<and> b_status b = ''Approved'' \<and> b_user_id b = u_id u))
     \<and> (get_booking db i = Some booking \<and> b_status booking = ''Approved''
          \<and> b_user_id booking = u_id u \<and> chosen \<noteq> [] \<longrightarrow>
            get_booking (fst (confirmation_payment db u i (Some chosen))) i =
              Some (booking\<lparr>b_payment_method := Some chosen,
                           b_payment_status := (if chosen = ''Cash'' then ''Unpaid''
                                                else b_payment_status booking)\<rparr>)
          \<and> get_booking (fst (process_payment db u i (Some paid_with))) i =
              Some (booking\<lparr>b_payment_method := paid_with, b_payment_status := ''Paid''\<rparr>))"
proof -
  have "pay_status_ok db"
    using reachable_invariants[OF assms] by simp
  then have "\<forall>b \<in> set (bookings db). b_payment_status b \<in> {''Unpaid'', ''Paid''}"
    by (simp add: pay_status_ok_def)
  then show ?thesis
    using confirmation_payment_changes[of db u i pm]
      confirmation_payment_selects[of db i booking u chosen]
      process_payment_pays[of db i booking u paid_with]
    by blast
qed

theorem C7_payment_witness:
  "reachable approved_db
   \<and> set (map b_payment_status (bookings approved_db)) \<subseteq> {''Unpaid'', ''Paid''}
   \<and> map_option (\<lambda>b. (b_payment_method b, b_payment_status b))
       (get_booking (fst (confirmation_payment approved_db alice 1 (Some ''GCash''))) 1)
       = Some (Some ''GCash'', ''Unpaid'')
   \<and> map_option (\<lambda>b. (b_payment_method b, b_payment_status b))
       (get_booking (fst (process_payment approved_db alice 1 (Some (Some ''GCash'')))) 1)
       = Some (Some ''GCash'', ''Paid'')"
proof -
  let ?a = "\<lparr>b_id = 1, b_user_id = 1, b_car_id = 1, b_pickup_date = feb 1,
       b_return_date = feb 10, b_notes = None, b_status = ''Approved'', b_payment_method = None,
       b_payment_status = ''Unpaid''\<rparr>"
  have g: "get_booking approved_db 1 = Some ?a"
    by (simp add: get_booking_def approved_bookings)
  have own: "b_user_id ?a = u_id alice" by (simp add: alice_def)
  show ?thesis
    using C7_payment[OF reachable_examples(1), of alice 1 "Some ''GCash''" ?a "''GCash''" "Some ''GCash''"]
      g own reachable_examples(1)
    by auto
qed

end
